theory Spec2Isabelle
  imports Main "HOL-Library.Word" "HOL-Library.Sublist" "HOL-Library.AList"
begin

section \<open>JavaScript strings\<close>

text \<open>
  A JavaScript string is a sequence of UTF-16 code units, and \<open>length\<close>, \<open>slice\<close> and the
  regular expressions of the scripts (none carries the \<open>u\<close> flag) all count code units.
  The case mappings are modelled on the ASCII letters; every other code unit is left as
  it is by \<open>toLowerCase\<close> and by the canonicalisation of the \<open>i\<close> flag.
\<close>

type_synonym jschar = "16 word"

type_synonym jsstring = "jschar list"

definition js :: "string \<Rightarrow> jsstring" where
  "js s = map (\<lambda>c. of_nat (of_char c)) s"

definition isUpperChar :: "jschar \<Rightarrow> bool" where
  "isUpperChar c = (0x41 \<le> unat c \<and> unat c \<le> 0x5A)"

definition isLowerChar :: "jschar \<Rightarrow> bool" where
  "isLowerChar c = (0x61 \<le> unat c \<and> unat c \<le> 0x7A)"

definition isDigitChar :: "jschar \<Rightarrow> bool" where
  "isDigitChar c = (0x30 \<le> unat c \<and> unat c \<le> 0x39)"

definition toLowerChar :: "jschar \<Rightarrow> jschar" where
  "toLowerChar c = (if isUpperChar c then c + 0x20 else c)"

definition toUpperChar :: "jschar \<Rightarrow> jschar" where
  "toUpperChar c = (if isLowerChar c then c - 0x20 else c)"

definition toLowerCase :: "jsstring \<Rightarrow> jsstring" where
  "toLowerCase s = map toLowerChar s"


text \<open>The class \<open>\s\<close>, which is also what \<open>trim\<close> strips: WhiteSpace and LineTerminator.\<close>

definition isWhiteSpace :: "jschar \<Rightarrow> bool" where
  "isWhiteSpace c =
     (let n = unat c in
        (0x09 \<le> n \<and> n \<le> 0x0D) \<or> n = 0x20 \<or> n = 0xA0 \<or> n = 0x1680 \<or>
        (0x2000 \<le> n \<and> n \<le> 0x200A) \<or> n = 0x2028 \<or> n = 0x2029 \<or> n = 0x202F \<or>
        n = 0x205F \<or> n = 0x3000 \<or> n = 0xFEFF)"

text \<open>The class \<open>\w\<close> that decides \<open>\b\<close>: \<open>[A-Za-z0-9_]\<close>.\<close>

definition isWordChar :: "jschar \<Rightarrow> bool" where
  "isWordChar c = (isUpperChar c \<or> isLowerChar c \<or> isDigitChar c \<or> unat c = 0x5F)"

definition trim :: "jsstring \<Rightarrow> jsstring" where
  "trim s = rev (dropWhile isWhiteSpace (rev (dropWhile isWhiteSpace s)))"

text \<open>\<open>s.includes(t)\<close> and \<open>s.endsWith(t)\<close>.\<close>

fun includesStr :: "jsstring \<Rightarrow> jsstring \<Rightarrow> bool" where
  "includesStr [] t = (t = [])"
| "includesStr (c # s) t = (prefix t (c # s) \<or> includesStr s t)"

definition endsWith :: "jsstring \<Rightarrow> jsstring \<Rightarrow> bool" where
  "endsWith s t = prefix (rev t) (rev s)"

text \<open>\<open>x || ''\<close> on a field that is a string, \<open>null\<close> or missing.\<close>

definition orEmpty :: "jsstring option \<Rightarrow> jsstring" where
  "orEmpty x = (case x of None \<Rightarrow> [] | Some s \<Rightarrow> s)"

section \<open>Regular expressions of the term matchers\<close>

text \<open>
  The patterns that \<open>buildTermPattern\<close> hands to \<open>new RegExp(source, 'i')\<close> are made of
  literal characters, identity escapes of syntax characters, \<open>\s+\<close> and \<open>\b\<close>. The
  constructor is modelled on that fragment: a source outside it is \<open>None\<close>.
  All patterns are compiled with the \<open>i\<close> flag and without \<open>g\<close> or \<open>y\<close>, so \<open>test\<close>
  searches from index 0.
\<close>

datatype char_class = Literal jschar | WhiteSpaceClass

datatype term_node = WordBoundary | Once char_class | OneOrMore char_class

type_synonym regex = "term_node list"

definition backslash :: jschar where
  "backslash = 0x5C"

text \<open>The syntax characters \<open>^ $ \ . * + ? ( ) [ ] { } |\<close>.\<close>

definition isSyntaxChar :: "jschar \<Rightarrow> bool" where
  "isSyntaxChar c = (c \<in> set (js ''^$.*+?()[]{}|'') \<or> c = backslash)"

text \<open>An atom followed by \<open>+\<close> is repeated one or more times.\<close>

definition quantified :: "char_class \<Rightarrow> jsstring \<Rightarrow> term_node \<times> jsstring" where
  "quantified cl s =
     (case s of
        [] \<Rightarrow> (Once cl, [])
      | q # rest \<Rightarrow> if q = 0x2B then (OneOrMore cl, rest) else (Once cl, q # rest))"

function RegExp_new :: "jsstring \<Rightarrow> regex option" where
  "RegExp_new [] = Some []"
| "RegExp_new (c # cs) =
     (if c = backslash then
        (case cs of
           [] \<Rightarrow> None
         | e # rest \<Rightarrow>
             if e = 0x62 then map_option (Cons WordBoundary) (RegExp_new rest)
             else if e = 0x73 then
               map_option (Cons (fst (quantified WhiteSpaceClass rest)))
                 (RegExp_new (snd (quantified WhiteSpaceClass rest)))
             else if isSyntaxChar e then
               map_option (Cons (fst (quantified (Literal e) rest)))
                 (RegExp_new (snd (quantified (Literal e) rest)))
             else None)
      else if isSyntaxChar c then None
      else map_option (Cons (fst (quantified (Literal c) cs)))
             (RegExp_new (snd (quantified (Literal c) cs))))"
  by pat_completeness auto

termination
  by (relation "measure length") (auto simp: quantified_def split: list.splits)

text \<open>Canonicalisation under the \<open>i\<close> flag: the upper-case form of the code unit.\<close>

definition canonicalize :: "jschar \<Rightarrow> jschar" where
  "canonicalize c = toUpperChar c"

fun classMatches :: "char_class \<Rightarrow> jschar \<Rightarrow> bool" where
  "classMatches (Literal a) c = (canonicalize a = canonicalize c)"
| "classMatches WhiteSpaceClass c = isWhiteSpace c"

text \<open>
  \<open>\b\<close> compares the character before the position with the one after it; outside
  the text there is no word character.
\<close>

fun isWordCharAt :: "jschar option \<Rightarrow> bool" where
  "isWordCharAt None = False"
| "isWordCharAt (Some c) = isWordChar c"

fun firstChar :: "jsstring \<Rightarrow> jschar option" where
  "firstChar [] = None"
| "firstChar (c # s) = Some c"

text \<open>
  \<open>matchHere r prev s\<close>: the pattern matches at the position whose previous character
  is \<open>prev\<close> and whose rest of the text is \<open>s\<close>; the backtracking of the engine over
  \<open>+\<close> is the disjunction.
\<close>

fun matchHere :: "regex \<Rightarrow> jschar option \<Rightarrow> jsstring \<Rightarrow> bool" where
  "matchHere [] prev s = True"
| "matchHere (WordBoundary # r) prev s =
     (isWordCharAt prev \<noteq> isWordCharAt (firstChar s) \<and> matchHere r prev s)"
| "matchHere (Once cl # r) prev [] = False"
| "matchHere (Once cl # r) prev (c # s) = (classMatches cl c \<and> matchHere r (Some c) s)"
| "matchHere (OneOrMore cl # r) prev [] = False"
| "matchHere (OneOrMore cl # r) prev (c # s) =
     (classMatches cl c \<and>
        (matchHere (OneOrMore cl # r) (Some c) s \<or> matchHere r (Some c) s))"

fun searchFrom :: "regex \<Rightarrow> jschar option \<Rightarrow> jsstring \<Rightarrow> bool" where
  "searchFrom r prev [] = matchHere r prev []"
| "searchFrom r prev (c # s) = (matchHere r prev (c # s) \<or> searchFrom r (Some c) s)"

definition RegExp_test :: "regex \<Rightarrow> jsstring \<Rightarrow> bool" where
  "RegExp_test r text = searchFrom r None text"

section \<open>Filter rules and term matchers\<close>

record filter_rules =
  allow_keywords :: "jsstring list"
  exclude_domains :: "jsstring list"
  exclude_keywords :: "jsstring list"

text \<open>
  What \<open>loadFilterRules\<close> meets: the file cannot be read, its text is not JSON, the
  parsed value is \<open>null\<close> (reading a member of it throws), or a value with the three
  members, each an array of strings or anything else (also missing).
\<close>

datatype json_member = JArray "jsstring list" | JNotArray

datatype rules_file =
    ReadFailed
  | ParseFailed
  | ParsedNull
  | Parsed json_member json_member json_member

definition emptyRules :: filter_rules where
  "emptyRules = \<lparr>allow_keywords = [], exclude_domains = [], exclude_keywords = []\<rparr>"

fun arrayOrEmpty :: "json_member \<Rightarrow> jsstring list" where
  "arrayOrEmpty (JArray xs) = xs"
| "arrayOrEmpty JNotArray = []"

fun loadFilterRules :: "rules_file \<Rightarrow> filter_rules" where
  "loadFilterRules (Parsed a d e) =
     \<lparr>allow_keywords = arrayOrEmpty a, exclude_domains = arrayOrEmpty d,
      exclude_keywords = arrayOrEmpty e\<rparr>"
| "loadFilterRules ReadFailed = emptyRules"
| "loadFilterRules ParseFailed = emptyRules"
| "loadFilterRules ParsedNull = emptyRules"

definition escapeRegExp :: "jsstring \<Rightarrow> jsstring" where
  "escapeRegExp v = concat (map (\<lambda>c. if isSyntaxChar c then [backslash, c] else [c]) v)"

text \<open>\<open>.replace(/\s+/g, '\\s+')\<close>: every maximal run of white space becomes \<open>\s+\<close>.\<close>

function replaceSpaceRuns :: "jsstring \<Rightarrow> jsstring" where
  "replaceSpaceRuns [] = []"
| "replaceSpaceRuns (c # cs) =
     (if isWhiteSpace c then [backslash, 0x73, 0x2B] @ replaceSpaceRuns (dropWhile isWhiteSpace cs)
      else c # replaceSpaceRuns cs)"
  by pat_completeness auto

termination
  by (relation "measure length") (auto simp: length_dropWhile_le less_Suc_eq_le)

text \<open>\<open>/^[a-z0-9]{1,3}$/i.test(term.trim())\<close>.\<close>

definition isShortWord :: "jsstring \<Rightarrow> bool" where
  "isShortWord t =
     (let s = trim t in
        1 \<le> length s \<and> length s \<le> 3 \<and>
        list_all (\<lambda>c. isLowerChar c \<or> isUpperChar c \<or> isDigitChar c) s)"

definition regexSource :: "jsstring \<Rightarrow> jsstring" where
  "regexSource t =
     (let escaped = replaceSpaceRuns (escapeRegExp (toLowerCase (trim t)))
      in if isShortWord t then [backslash, 0x62] @ escaped @ [backslash, 0x62] else escaped)"

definition buildTermPattern :: "jsstring \<Rightarrow> regex option" where
  "buildTermPattern t = RegExp_new (regexSource t)"

record matcher =
  "term" :: jsstring
  pattern :: regex

text \<open>
  The module builds its matchers once, when it is loaded: \<open>filterRules\<close>,
  \<open>allowKeywordMatchers\<close> and \<open>excludeKeywordMatchers\<close>. A pattern that the
  constructor refuses would stop the script there.
\<close>

fun buildMatchers :: "jsstring list \<Rightarrow> matcher list option" where
  "buildMatchers [] = Some []"
| "buildMatchers (t # ts) =
     (case buildTermPattern t of
        None \<Rightarrow> None
      | Some p \<Rightarrow> map_option (Cons \<lparr>term = t, pattern = p\<rparr>) (buildMatchers ts))"

record classifier =
  filterRules :: filter_rules
  allowKeywordMatchers :: "matcher list"
  excludeKeywordMatchers :: "matcher list"

definition initClassifier :: "filter_rules \<Rightarrow> classifier option" where
  "initClassifier rules =
     (case buildMatchers (allow_keywords rules) of
        None \<Rightarrow> None
      | Some am \<Rightarrow>
          (case buildMatchers (exclude_keywords rules) of
             None \<Rightarrow> None
           | Some em \<Rightarrow>
               Some \<lparr>filterRules = rules, allowKeywordMatchers = am,
                     excludeKeywordMatchers = em\<rparr>))"

section \<open>Relevance classifier\<close>

record source_info =
  name :: "jsstring option"

record raw_article =
  title :: "jsstring option"
  description :: "jsstring option"
  content :: "jsstring option"
  url :: "jsstring option"
  urlToImage :: "jsstring option"
  publishedAt :: "jsstring option"
  source :: "source_info option"

text \<open>
  \<open>new URL(url).hostname\<close> is the platform's URL parser; the classifier takes it as a
  parameter: \<open>None\<close> where the constructor throws, the host name otherwise.
\<close>

type_synonym url_parser = "jsstring \<Rightarrow> jsstring option"

definition extractHost :: "url_parser \<Rightarrow> jsstring option \<Rightarrow> jsstring" where
  "extractHost hostnameOf u =
     (if orEmpty u = [] then []
      else case hostnameOf (orEmpty u) of None \<Rightarrow> [] | Some h \<Rightarrow> toLowerCase h)"

definition isExcludedDomain :: "url_parser \<Rightarrow> classifier \<Rightarrow> jsstring option \<Rightarrow> bool" where
  "isExcludedDomain hostnameOf cl u =
     (let host = extractHost hostnameOf u in
        if host = [] then False
        else list_ex
               (\<lambda>domain.
                  let normalized = trim (toLowerCase domain)
                  in host = normalized \<or> endsWith host (0x2E # normalized))
               (exclude_domains (filterRules cl)))"

definition findMatchedTerms :: "jsstring \<Rightarrow> matcher list \<Rightarrow> jsstring list" where
  "findMatchedTerms text matchers =
     map (\<lambda>m. toLowerCase (term m)) (filter (\<lambda>m. RegExp_test (pattern m) text) matchers)"

definition sourceName :: "raw_article \<Rightarrow> jsstring" where
  "sourceName article = (case source article of None \<Rightarrow> [] | Some s \<Rightarrow> orEmpty (name s))"

definition combinedText :: "raw_article \<Rightarrow> jsstring" where
  "combinedText article =
     toLowerCase
       (orEmpty (title article) @ [0x0A] @ orEmpty (description article) @ [0x0A] @
        orEmpty (content article) @ [0x0A] @ sourceName article)"

definition isAiRelatedArticle :: "url_parser \<Rightarrow> classifier \<Rightarrow> raw_article \<Rightarrow> bool" where
  "isAiRelatedArticle hostnameOf cl article =
     (if isExcludedDomain hostnameOf cl (url article) then False
      else
        let allowHits = findMatchedTerms (combinedText article) (allowKeywordMatchers cl) in
        if length allowHits = 0 then False
        else
          let excludeHits = findMatchedTerms (combinedText article) (excludeKeywordMatchers cl) in
          if length excludeHits > 0 then
            (let hasOnlyAiAsAllowTerm = list_all (\<lambda>t. t = js ''ai'') allowHits
             in if hasOnlyAiAsAllowTerm then False else False)
          else True)"

section \<open>Examples used by the witnesses\<close>

text \<open>
  The rules and the article text of the specification's example: allow \<open>ai\<close>, exclude
  \<open>sports\<close>, and the classifier that the module builds from them.
\<close>

definition sportsRules :: filter_rules where
  "sportsRules =
     \<lparr>allow_keywords = [js ''ai''], exclude_domains = [], exclude_keywords = [js ''sports'']\<rparr>"

definition aiPattern :: regex where
  "aiPattern = [WordBoundary, Once (Literal 0x61), Once (Literal 0x69), WordBoundary]"

definition sportsPattern :: regex where
  "sportsPattern = map (\<lambda>c. Once (Literal c)) (js ''sports'')"

definition sportsClassifier :: classifier where
  "sportsClassifier =
     \<lparr>filterRules = sportsRules,
      allowKeywordMatchers = [\<lparr>term = js ''ai'', pattern = aiPattern\<rparr>],
      excludeKeywordMatchers = [\<lparr>term = js ''sports'', pattern = sportsPattern\<rparr>]\<rparr>"

definition titled :: "string \<Rightarrow> raw_article" where
  "titled s =
     \<lparr>title = Some (js s), description = None, content = None, url = None,
      urlToImage = None, publishedAt = None, source = None\<rparr>"

definition noHostnames :: url_parser where
  "noHostnames u = None"

text \<open>Rules whose only allow entry is blank.\<close>

definition blankRules :: filter_rules where
  "blankRules =
     \<lparr>allow_keywords = [js '' ''], exclude_domains = [], exclude_keywords = [js ''sports'']\<rparr>"

definition blankClassifier :: classifier where
  "blankClassifier =
     \<lparr>filterRules = blankRules,
      allowKeywordMatchers = [\<lparr>term = js '' '', pattern = []\<rparr>],
      excludeKeywordMatchers = [\<lparr>term = js ''sports'', pattern = sportsPattern\<rparr>]\<rparr>"

definition emptyClassifier :: classifier where
  "emptyClassifier =
     \<lparr>filterRules = emptyRules, allowKeywordMatchers = [], excludeKeywordMatchers = []\<rparr>"

section \<open>Reading a compiled pattern\<close>

text \<open>
  The vocabulary of the statements about patterns. \<open>compileTerm\<close> is the pattern that
  the escaped source of a term denotes; \<open>charBefore\<close> is the character before a
  position; \<open>squeezeSpace\<close> puts one blank for every run of white space; \<open>occursAsWord\<close>
  says that a word occurs in a text with no word character right before or after it.
\<close>

function compileTerm :: "jsstring \<Rightarrow> regex" where
  "compileTerm [] = []"
| "compileTerm (c # cs) =
     (if isWhiteSpace c then OneOrMore WhiteSpaceClass # compileTerm (dropWhile isWhiteSpace cs)
      else Once (Literal c) # compileTerm cs)"
  by pat_completeness auto

termination
  by (relation "measure length") (auto simp: length_dropWhile_le less_Suc_eq_le)



function squeezeSpace :: "jsstring \<Rightarrow> jsstring" where
  "squeezeSpace [] = []"
| "squeezeSpace (c # cs) =
     (if isWhiteSpace c then 0x20 # squeezeSpace (dropWhile isWhiteSpace cs)
      else c # squeezeSpace cs)"
  by pat_completeness auto

termination
  by (relation "measure length") (auto simp: length_dropWhile_le less_Suc_eq_le)




section \<open>Domain comparison as the specification words it\<close>

text \<open>
  The comparison as the specification words it: case-insensitive and with a trailing dot
  of the host name or of the entry left out. It is what the claim is measured against;
  the code's comparison is the one in \<open>isExcludedDomain\<close>.
\<close>

definition stripTrailingDot :: "jsstring \<Rightarrow> jsstring" where
  "stripTrailingDot s = (if s \<noteq> [] \<and> last s = 0x2E then butlast s else s)"

definition specDomainMatch :: "jsstring \<Rightarrow> jsstring \<Rightarrow> bool" where
  "specDomainMatch host domain =
     (let h = stripTrailingDot (toLowerCase host); d = stripTrailingDot (toLowerCase domain)
      in h = d \<or> endsWith h (0x2E # d))"

text \<open>
  The host names that \<open>new URL(u).hostname\<close> returns for the URLs of the examples
  (the parser keeps a trailing dot of the host).
\<close>

definition exampleHostnames :: url_parser where
  "exampleHostnames u =
     (if u = js ''https://news.example.com/ai-chips'' then Some (js ''news.example.com'')
      else if u = js ''https://example.com./ai-chips'' then Some (js ''example.com.'')
      else None)"

definition aiArticleAt :: "string \<Rightarrow> raw_article" where
  "aiArticleAt u = (titled ''AI chips'')\<lparr>url := Some (js u)\<rparr>"

definition domainClassifier :: "string \<Rightarrow> classifier" where
  "domainClassifier d =
     \<lparr>filterRules = \<lparr>allow_keywords = [js ''ai''], exclude_domains = [js d], exclude_keywords = []\<rparr>,
      allowKeywordMatchers = [\<lparr>term = js ''ai'', pattern = aiPattern\<rparr>],
      excludeKeywordMatchers = []\<rparr>"

section \<open>Summarizer\<close>

text \<open>\<open>x || y\<close> where \<open>x\<close> is a string, \<open>null\<close> or missing: the empty string is falsy.\<close>

definition truthy :: "jsstring option \<Rightarrow> bool" where
  "truthy x = (case x of None \<Rightarrow> False | Some s \<Rightarrow> s \<noteq> [])"

definition orString :: "jsstring option \<Rightarrow> jsstring \<Rightarrow> jsstring" where
  "orString x y = (case x of None \<Rightarrow> y | Some s \<Rightarrow> if s = [] then y else s)"

text \<open>
  The fixed message of \<open>buildFallbackSummary\<close>, a Japanese sentence of 17 code units
  saying that the summary of the article could not be obtained.
\<close>

definition unavailableMessage :: jsstring where
  "unavailableMessage =
     [0x8A18, 0x4E8B, 0x306E, 0x8981, 0x7D04, 0x3092, 0x53D6, 0x5F97, 0x3067, 0x304D,
      0x307E, 0x305B, 0x3093, 0x3067, 0x3057, 0x305F, 0x3002]"

definition fallbackBase :: "raw_article \<Rightarrow> jsstring" where
  "fallbackBase article =
     orString (description article) (orString (title article) unavailableMessage)"

definition buildFallbackSummary :: "raw_article \<Rightarrow> jsstring" where
  "buildFallbackSummary article =
     (let base = fallbackBase article
      in if length base > 200 then take 197 base @ js ''...'' else base)"

text \<open>
  \<open>model.generateContent(prompt)\<close> followed by \<open>response.text()\<close> throws or gives the
  reply's text. \<open>JSON.parse\<close> is the platform's and is a parameter: \<open>None\<close> where it
  throws; of a parsed value the summarizer reads the members \<open>title_ja\<close> and
  \<open>summary_ja\<close> (reading a member of \<open>null\<close> throws; a value that is not an object has
  neither member).
\<close>

datatype generate_result = GenerateFailed | GenerateText jsstring

datatype json_reply = JsonNull | JsonMembers "jsstring option" "jsstring option"

type_synonym json_parser = "jsstring \<Rightarrow> json_reply option"

record summary =
  title_ja :: "jsstring option"
  summary_ja :: jsstring

definition backticks :: jsstring where
  "backticks = [0x60, 0x60, 0x60]"

text \<open>\<open>.replace(/^```json\s*/, '')\<close> and \<open>.replace(/\s*```$/, '')\<close>.\<close>

definition stripFenceOpen :: "jsstring \<Rightarrow> jsstring" where
  "stripFenceOpen s =
     (if prefix (backticks @ js ''json'') s then dropWhile isWhiteSpace (drop 7 s) else s)"

definition stripFenceClose :: "jsstring \<Rightarrow> jsstring" where
  "stripFenceClose s =
     (if endsWith s backticks
      then rev (dropWhile isWhiteSpace (rev (take (length s - 3) s)))
      else s)"

definition cleanReply :: "jsstring \<Rightarrow> jsstring" where
  "cleanReply raw = stripFenceClose (stripFenceOpen (trim raw))"

definition fallbackResult :: "raw_article \<Rightarrow> summary" where
  "fallbackResult article =
     \<lparr>title_ja = title article, summary_ja = buildFallbackSummary article\<rparr>"

definition summarizeArticle :: "json_parser \<Rightarrow> generate_result \<Rightarrow> raw_article \<Rightarrow> summary" where
  "summarizeArticle jsonParse reply article =
     (case reply of
        GenerateFailed \<Rightarrow> fallbackResult article
      | GenerateText raw \<Rightarrow>
          (case jsonParse (cleanReply raw) of
             None \<Rightarrow> fallbackResult article
           | Some JsonNull \<Rightarrow> fallbackResult article
           | Some (JsonMembers t s) \<Rightarrow>
               \<lparr>title_ja = (if truthy t then t else title article),
                summary_ja = orString s (buildFallbackSummary article)\<rparr>))"

text \<open>
  A reply that carries the title only, the same reply inside a fence, and what
  \<open>JSON.parse\<close> returns for the reply texts of the examples.
\<close>

definition titleOnlyJson :: jsstring where
  \<open>titleOnlyJson = js ''{"title_ja": "T"}''\<close>

definition fencedReply :: jsstring where
  "fencedReply = backticks @ js ''json'' @ [0x0A] @ titleOnlyJson @ [0x0A] @ backticks"

definition exampleJsonParse :: json_parser where
  "exampleJsonParse s =
     (if s = titleOnlyJson then Some (JsonMembers (Some (js ''T'')) None)
      else if s = js ''{}'' then Some (JsonMembers None None)
      else if s = js ''null'' then Some JsonNull
      else None)"

text \<open>A reply that carries a summary of 500 code units and no title.\<close>

definition longSummary :: jsstring where
  "longSummary = replicate 500 0x61"

definition summaryOnlyJson :: jsstring where
  \<open>summaryOnlyJson = js ''{"summary_ja": "'' @ longSummary @ js ''"}''\<close>

definition summaryOnlyParse :: json_parser where
  "summaryOnlyParse s =
     (if s = summaryOnlyJson then Some (JsonMembers None (Some longSummary)) else None)"

definition longArticle :: raw_article where
  "longArticle = (titled ''AI chips'')\<lparr>description := Some (replicate 250 0x61)\<rparr>"

section \<open>Ingestion pipeline\<close>

text \<open>\<open>fetchNews\<close>: the articles of the response, or the empty list when the request fails.\<close>

datatype fetch_result = FetchFailed | FetchOk "raw_article list"

definition fetchNews :: "fetch_result \<Rightarrow> raw_article list" where
  "fetchNews r = (case r of FetchFailed \<Rightarrow> [] | FetchOk as \<Rightarrow> as)"

text \<open>
  \<open>new Date(x || 0).getTime()\<close>: the platform's date parser is a parameter, \<open>None\<close> where
  the date is invalid (\<open>NaN\<close>); a missing or empty time stamp is epoch 0.
\<close>

type_synonym date_parser = "jsstring \<Rightarrow> int option"

definition timeOf :: "date_parser \<Rightarrow> jsstring option \<Rightarrow> int option" where
  "timeOf getTime x =
     (case x of None \<Rightarrow> Some 0 | Some s \<Rightarrow> if s = [] then Some 0 else getTime s)"

text \<open>The comparator of the sort, \<open>dateB - dateA\<close>; \<open>None\<close> is \<open>NaN\<close>.\<close>

definition compareByDate :: "date_parser \<Rightarrow> raw_article \<Rightarrow> raw_article \<Rightarrow> int option" where
  "compareByDate getTime a b =
     (case (timeOf getTime (publishedAt b), timeOf getTime (publishedAt a)) of
        (Some dateB, Some dateA) \<Rightarrow> Some (dateB - dateA)
      | _ \<Rightarrow> None)"

text \<open>
  \<open>Array.prototype.sort\<close> is stable and treats a \<open>NaN\<close> result as 0. With a consistent
  comparator its result is the stable sorted arrangement, which this insertion sort
  computes; with an inconsistent one (a \<open>NaN\<close> among the times) the order is left to the
  implementation.
\<close>

definition comesAfter :: "('a \<Rightarrow> 'a \<Rightarrow> int option) \<Rightarrow> 'a \<Rightarrow> 'a \<Rightarrow> bool" where
  "comesAfter cmp x y = (case cmp x y of None \<Rightarrow> False | Some v \<Rightarrow> 0 < v)"

fun insertBy :: "('a \<Rightarrow> 'a \<Rightarrow> int option) \<Rightarrow> 'a \<Rightarrow> 'a list \<Rightarrow> 'a list" where
  "insertBy cmp x [] = [x]"
| "insertBy cmp x (y # ys) =
     (if comesAfter cmp x y then y # insertBy cmp x ys else x # y # ys)"

definition sortBy :: "('a \<Rightarrow> 'a \<Rightarrow> int option) \<Rightarrow> 'a list \<Rightarrow> 'a list" where
  "sortBy cmp xs = foldr (insertBy cmp) xs []"

record processed_article =
  title' :: "jsstring option"
  title_ja' :: "jsstring option"
  original_url :: "jsstring option"
  image_url :: "jsstring option"
  published_at :: "jsstring option"
  source' :: "jsstring option"
  summary_ja' :: jsstring

record snapshot =
  updated_at :: jsstring
  articles :: "processed_article list"

text \<open>The two places the run writes to: \<open>latest.json\<close> and the archive files by date.\<close>

record file_store =
  latest :: "snapshot option"
  archives :: "jsstring \<rightharpoonup> snapshot"

text \<open>
  What a run meets outside the script: the response of the news API, the model's reply
  to the k-th prompt, the platform's parsers, the clock, and whether each
  \<open>writeFileSync\<close> succeeds.
\<close>

record world =
  newsApi :: fetch_result
  modelReply :: "nat \<Rightarrow> generate_result"
  jsonParse :: json_parser
  urlHostname :: url_parser
  dateGetTime :: date_parser
  todayJst :: jsstring
  nowIso :: jsstring
  latestWritable :: bool
  archiveWritable :: bool

datatype run_outcome = NoArticles | NoRelevantArticles | Crashed | WriteFailed | Saved

text \<open>
  The loop over \<open>topArticles\<close>. Reading \<open>article.source.name\<close> of an article without
  \<open>source\<close> throws, which ends the run: \<open>None\<close>.
\<close>

fun summarizeAll :: "world \<Rightarrow> nat \<Rightarrow> raw_article list \<Rightarrow> processed_article list option" where
  "summarizeAll w k [] = Some []"
| "summarizeAll w k (article # rest) =
     (let s = summarizeArticle (jsonParse w) (modelReply w k) article in
      case source article of
        None \<Rightarrow> None
      | Some src \<Rightarrow>
          map_option
            (Cons \<lparr>title' = title article, title_ja' = title_ja s,
                   original_url = url article, image_url = urlToImage article,
                   published_at = publishedAt article, source' = name src,
                   summary_ja' = summary_ja s\<rparr>)
            (summarizeAll w (Suc k) rest))"

definition topArticles :: "world \<Rightarrow> classifier \<Rightarrow> raw_article list" where
  "topArticles w cl =
     (let articles = fetchNews (newsApi w);
          validArticles = filter (\<lambda>article. title article \<noteq> Some (js ''[Removed]'')) articles;
          filteredArticles = filter (isAiRelatedArticle (urlHostname w) cl) validArticles;
          sortedArticles = sortBy (compareByDate (dateGetTime w)) filteredArticles
      in take 20 sortedArticles)"

definition processNews :: "world \<Rightarrow> classifier \<Rightarrow> file_store \<Rightarrow> run_outcome \<times> file_store" where
  "processNews w cl store =
     (if length (fetchNews (newsApi w)) = 0 then (NoArticles, store)
      else if length (topArticles w cl) = 0 then (NoRelevantArticles, store)
      else
        case summarizeAll w 0 (topArticles w cl) of
          None \<Rightarrow> (Crashed, store)
        | Some processedArticles \<Rightarrow>
            let outputData = \<lparr>updated_at = nowIso w, articles = processedArticles\<rparr> in
            if \<not> latestWritable w then (WriteFailed, store)
            else
              let store1 = store\<lparr>latest := Some outputData\<rparr> in
              if \<not> archiveWritable w then (WriteFailed, store1)
              else (Saved, store1\<lparr>archives := (archives store1)(todayJst w \<mapsto> outputData)\<rparr>))"

text \<open>The articles that pass both filters: the list that the run sorts.\<close>

definition filteredArticles :: "world \<Rightarrow> classifier \<Rightarrow> raw_article list" where
  "filteredArticles w cl =
     filter (isAiRelatedArticle (urlHostname w) cl)
       (filter (\<lambda>article. title article \<noteq> Some (js ''[Removed]'')) (fetchNews (newsApi w)))"


text \<open>A run of the examples: the model call fails for every article; both files can be written.\<close>

definition wire :: source_info where
  "wire = \<lparr>name = Some (js ''Wire'')\<rparr>"

definition newsItem :: "string \<Rightarrow> jsstring option \<Rightarrow> raw_article" where
  "newsItem t d = (titled t)\<lparr>publishedAt := d, source := Some wire\<rparr>"

definition exampleDates :: date_parser where
  "exampleDates s =
     (if s = js ''2026-01-02T08:00:00Z'' then Some 1767340800000
      else if s = js ''2026-01-03T08:00:00Z'' then Some 1767427200000
      else None)"

definition exampleWorld :: "fetch_result \<Rightarrow> world" where
  "exampleWorld r =
     \<lparr>newsApi = r, modelReply = (\<lambda>k. GenerateFailed), jsonParse = exampleJsonParse,
      urlHostname = noHostnames, dateGetTime = exampleDates, todayJst = js ''2026-01-03'',
      nowIso = js ''2026-01-03T09:00:00.000Z'', latestWritable = True, archiveWritable = True\<rparr>"

definition priorStore :: file_store where
  "priorStore =
     \<lparr>latest = Some \<lparr>updated_at = js ''2026-01-02T09:00:00.000Z'', articles = []\<rparr>,
      archives = Map.empty\<rparr>"

definition irrelevantNews :: "raw_article list" where
  "irrelevantNews =
     [newsItem ''[Removed]'' None,
      newsItem ''AI in sports'' (Some (js ''2026-01-03T08:00:00Z'')),
      newsItem ''He said hello'' (Some (js ''2026-01-02T08:00:00Z''))]"





section \<open>Offline cache layer\<close>

text \<open>
  The service worker's state is the origin's cache storage: named caches in the order
  of their creation, each a list of stored responses by request. A request is identified
  by its URL. The network is a parameter: \<open>None\<close> where \<open>fetch\<close> rejects. Every
  asynchronous step is modelled as complete when its handler returns.
\<close>

type_synonym request = jsstring

datatype response_type = Basic | Cors | Opaque | OpaqueRedirect | ErrorResponse

record response =
  status :: nat
  type' :: response_type
  body :: jsstring

type_synonym cache = "(request \<times> response) list"

type_synonym cache_storage = "(jsstring \<times> cache) list"

type_synonym network = "request \<Rightarrow> response option"

definition CACHE_NAME :: jsstring where
  "CACHE_NAME = js ''ai-news-v2''"

definition ASSETS :: "request list" where
  "ASSETS = [js ''./'', js ''./index.html'', js ''./style.css'', js ''./app.js'', js ''./manifest.json'']"

definition caches_keys :: "cache_storage \<Rightarrow> jsstring list" where
  "caches_keys cs = map fst cs"

text \<open>\<open>caches.open(name)\<close> creates the cache when there is none of that name.\<close>

definition caches_open :: "jsstring \<Rightarrow> cache_storage \<Rightarrow> cache_storage" where
  "caches_open n cs = (if n \<in> set (caches_keys cs) then cs else cs @ [(n, [])])"

definition caches_delete :: "jsstring \<Rightarrow> cache_storage \<Rightarrow> cache_storage" where
  "caches_delete n cs = AList.delete n cs"

text \<open>\<open>caches.match(request)\<close> looks through the caches in the order of their creation.\<close>

fun caches_match :: "request \<Rightarrow> cache_storage \<Rightarrow> response option" where
  "caches_match req [] = None"
| "caches_match req ((n, c) # cs) =
     (case map_of c req of Some r \<Rightarrow> Some r | None \<Rightarrow> caches_match req cs)"

text \<open>\<open>cache.put(request, response)\<close> on the cache named \<open>n\<close>.\<close>

definition cache_put :: "jsstring \<Rightarrow> request \<Rightarrow> response \<Rightarrow> cache_storage \<Rightarrow> cache_storage" where
  "cache_put n req r cs = AList.map_entry n (AList.update req r) cs"

definition cache_lookup :: "jsstring \<Rightarrow> request \<Rightarrow> cache_storage \<Rightarrow> response option" where
  "cache_lookup n req cs = (case map_of cs n of None \<Rightarrow> None | Some c \<Rightarrow> map_of c req)"

text \<open>
  \<open>install\<close>: open the current cache and \<open>addAll(ASSETS)\<close>, which stores the response of
  every asset, or nothing (and the installation fails) when a fetch rejects or a
  response is not ok.
\<close>

definition addable :: "network \<Rightarrow> request \<Rightarrow> bool" where
  "addable net req =
     (case net req of None \<Rightarrow> False | Some r \<Rightarrow> 200 \<le> status r \<and> status r \<le> 299)"

fun addAll :: "network \<Rightarrow> jsstring \<Rightarrow> request list \<Rightarrow> cache_storage \<Rightarrow> cache_storage" where
  "addAll net n [] cs = cs"
| "addAll net n (req # reqs) cs =
     (case net req of
        None \<Rightarrow> addAll net n reqs cs
      | Some r \<Rightarrow> addAll net n reqs (cache_put n req r cs))"

definition install :: "network \<Rightarrow> cache_storage \<Rightarrow> bool \<times> cache_storage" where
  "install net cs =
     (let opened = caches_open CACHE_NAME cs
      in if list_all (addable net) ASSETS then (True, addAll net CACHE_NAME ASSETS opened)
         else (False, opened))"

text \<open>\<open>activate\<close>: delete every cache whose name is not the current one.\<close>

definition activate :: "cache_storage \<Rightarrow> cache_storage" where
  "activate cs =
     fold (\<lambda>cacheName st. if cacheName \<noteq> CACHE_NAME then caches_delete cacheName st else st)
       (caches_keys cs) cs"

text \<open>
  \<open>fetch\<close>: network first for the data snapshot, cache first for everything else. The
  handler's result is the response that \<open>respondWith\<close> receives, \<open>None\<close> when there is
  none to serve, and the cache storage after the request.
\<close>

definition isDataRequest :: "request \<Rightarrow> bool" where
  "isDataRequest req = includesStr req (js ''/data/latest.json'')"

definition onFetch :: "network \<Rightarrow> cache_storage \<Rightarrow> request \<Rightarrow> response option \<times> cache_storage" where
  "onFetch net cs req =
     (if isDataRequest req then
        (case net req of
           Some r \<Rightarrow>
             if status r \<noteq> 200 \<or> type' r \<noteq> Basic then (Some r, cs)
             else (Some r, cache_put CACHE_NAME req r (caches_open CACHE_NAME cs))
         | None \<Rightarrow> (caches_match req cs, cs))
      else
        (case caches_match req cs of
           Some r \<Rightarrow> (Some r, cs)
         | None \<Rightarrow> (net req, cs)))"

text \<open>Cache storages, responses and networks of the examples.\<close>

definition okResponse :: "string \<Rightarrow> response" where
  "okResponse b = \<lparr>status = 200, type' = Basic, body = js b\<rparr>"

definition unavailableResponse :: response where
  "unavailableResponse = \<lparr>status = 503, type' = Basic, body = []\<rparr>"

definition dataUrl :: request where
  "dataUrl = js ''https://news.example/data/latest.json''"

definition oldStorage :: cache_storage where
  "oldStorage = [(js ''ai-news-v1'', [(js ''./'', okResponse ''old shell'')]), (js ''other'', [])]"

definition currentStorage :: cache_storage where
  "currentStorage = oldStorage @ [(CACHE_NAME, [(js ''./'', okResponse ''shell'')])]"

definition staleStorage :: cache_storage where
  "staleStorage = [(CACHE_NAME, [(js ''./'', okResponse ''shell''), (dataUrl, okResponse ''stale'')])]"

definition onlineNetwork :: network where
  "onlineNetwork req = (if req = dataUrl then Some (okResponse ''fresh'') else Some (okResponse ''asset''))"

definition failingServer :: network where
  "failingServer req = Some unavailableResponse"

definition offlineNetwork :: network where
  "offlineNetwork req = None"

section \<open>Evaluation on concrete inputs\<close>

lemma quantified_simps [simp]:
  "quantified cl [] = (Once cl, [])"
  "quantified cl (q # rest) = (if q = 0x2B then (OneOrMore cl, rest) else (Once cl, q # rest))"
  by (simp_all add: quantified_def)

lemmas char_eval =
  js_def backslash_def isSyntaxChar_def isWhiteSpace_def isUpperChar_def isLowerChar_def
  isDigitChar_def isWordChar_def toLowerChar_def toUpperChar_def canonicalize_def Let_def

lemmas string_eval =
  char_eval trim_def toLowerCase_def escapeRegExp_def isShortWord_def regexSource_def
  buildTermPattern_def RegExp_test_def orEmpty_def endsWith_def

lemmas classifier_eval =
  string_eval initClassifier_def findMatchedTerms_def combinedText_def sourceName_def
  isExcludedDomain_def extractHost_def isAiRelatedArticle_def

lemma sportsClassifier_init: "initClassifier sportsRules = Some sportsClassifier"
  by (simp add: sportsRules_def sportsClassifier_def aiPattern_def sportsPattern_def
      classifier_eval)

lemma combinedText_titled:
  "combinedText (titled s) = toLowerCase (js s) @ [0x0A, 0x0A, 0x0A]"
  by (simp add: titled_def combinedText_def sourceName_def orEmpty_def toLowerCase_def
      toLowerChar_def isUpperChar_def)

section \<open>The classifier's decision\<close>

lemma searchFrom_Nil [simp]: "searchFrom [] prev s = True"
  by (cases s) simp_all

lemma RegExp_test_Nil: "RegExp_test [] text"
  by (simp add: RegExp_test_def)

lemma findMatchedTerms_empty_iff:
  "findMatchedTerms text ms = [] \<longleftrightarrow> (\<forall>m\<in>set ms. \<not> RegExp_test (pattern m) text)"
  by (auto simp: findMatchedTerms_def filter_empty_conv)

lemma isAiRelatedArticle_iff:
  "isAiRelatedArticle hostnameOf cl article \<longleftrightarrow>
     \<not> isExcludedDomain hostnameOf cl (url article) \<and>
     (\<exists>m\<in>set (allowKeywordMatchers cl). RegExp_test (pattern m) (combinedText article)) \<and>
     \<not> (\<exists>m\<in>set (excludeKeywordMatchers cl). RegExp_test (pattern m) (combinedText article))"
proof -
  have len: "\<And>xs :: jsstring list. (length xs = 0) = (xs = [])" "\<And>xs :: jsstring list. (0 < length xs) = (xs \<noteq> [])"
    by simp_all
  show ?thesis
    unfolding isAiRelatedArticle_def Let_def len findMatchedTerms_empty_iff
    by auto
qed

text \<open>
  C1. An article whose combined text matches at least one allow matcher and at least
  one exclude matcher is rejected, whatever the allow terms that matched: both
  branches under the exclude hit return false.
\<close>

theorem exclusion_wins:
  assumes "\<exists>m\<in>set (allowKeywordMatchers cl). RegExp_test (pattern m) (combinedText article)"
    and "\<exists>m\<in>set (excludeKeywordMatchers cl). RegExp_test (pattern m) (combinedText article)"
  shows "\<not> isAiRelatedArticle hostnameOf cl article"
  using assms by (simp add: isAiRelatedArticle_iff)

theorem exclusion_wins_witness:
  "initClassifier sportsRules = Some sportsClassifier \<and>
   RegExp_test aiPattern (combinedText (titled ''AI breakthrough in sports analytics'')) \<and>
   RegExp_test sportsPattern (combinedText (titled ''AI breakthrough in sports analytics'')) \<and>
   \<not> isAiRelatedArticle noHostnames sportsClassifier
         (titled ''AI breakthrough in sports analytics'')"
proof -
  let ?a = "titled ''AI breakthrough in sports analytics''"
  have allow: "RegExp_test aiPattern (combinedText ?a)"
    by (simp add: combinedText_titled aiPattern_def string_eval)
  have exclude: "RegExp_test sportsPattern (combinedText ?a)"
    by (simp add: combinedText_titled sportsPattern_def string_eval)
  have "\<not> isAiRelatedArticle noHostnames sportsClassifier ?a"
    by (rule exclusion_wins) (simp_all add: sportsClassifier_def allow exclude)
  with allow exclude sportsClassifier_init show ?thesis by simp
qed

lemma emptyClassifier_init: "initClassifier emptyRules = Some emptyClassifier"
  by (simp add: initClassifier_def emptyRules_def emptyClassifier_def)

text \<open>
  C2. An article whose combined text matches no allow matcher is rejected. When the
  rules file cannot be read or parsed, \<open>loadFilterRules\<close> returns the three empty
  lists, the module builds no matcher from them, and every article is rejected.
\<close>

theorem no_allow_match_rejected:
  "(list_all (\<lambda>m. \<not> RegExp_test (pattern m) (combinedText article)) (allowKeywordMatchers cl)
      \<longrightarrow> \<not> isAiRelatedArticle hostnameOf cl article) \<and>
   (f = ReadFailed \<or> f = ParseFailed \<longrightarrow>
      loadFilterRules f = emptyRules \<and>
      initClassifier (loadFilterRules f) = Some emptyClassifier \<and>
      \<not> isAiRelatedArticle hostnameOf emptyClassifier article)"
proof (intro conjI impI)
  assume "list_all (\<lambda>m. \<not> RegExp_test (pattern m) (combinedText article)) (allowKeywordMatchers cl)"
  then show "\<not> isAiRelatedArticle hostnameOf cl article"
    by (simp add: isAiRelatedArticle_iff list_all_iff)
next
  assume f: "f = ReadFailed \<or> f = ParseFailed"
  then show rules: "loadFilterRules f = emptyRules"
    by auto
  then show "initClassifier (loadFilterRules f) = Some emptyClassifier"
    by (simp add: emptyClassifier_init)
  show "\<not> isAiRelatedArticle hostnameOf emptyClassifier article"
    by (simp add: isAiRelatedArticle_iff emptyClassifier_def)
qed

theorem no_allow_match_rejected_witness:
  "list_all (\<lambda>m. \<not> RegExp_test (pattern m) (combinedText (titled ''He said hello'')))
     (allowKeywordMatchers sportsClassifier) \<and>
   \<not> isAiRelatedArticle noHostnames sportsClassifier (titled ''He said hello'') \<and>
   loadFilterRules ReadFailed = emptyRules \<and>
   initClassifier (loadFilterRules ReadFailed) = Some emptyClassifier \<and>
   \<not> isAiRelatedArticle noHostnames emptyClassifier (titled ''He said hello'')"
proof -
  have miss: "list_all (\<lambda>m. \<not> RegExp_test (pattern m) (combinedText (titled ''He said hello'')))
     (allowKeywordMatchers sportsClassifier)"
    by (simp add: sportsClassifier_def combinedText_titled aiPattern_def string_eval)
  show ?thesis
    using miss
      no_allow_match_rejected [of "titled ''He said hello''" sportsClassifier noHostnames ReadFailed]
    by simp
qed

section \<open>A blank allow entry\<close>

lemma buildMatchers_member:
  "buildMatchers ts = Some ms \<Longrightarrow> t \<in> set ts \<Longrightarrow>
     \<exists>m\<in>set ms. term m = t \<and> buildTermPattern t = Some (pattern m)"
  by (induction ts arbitrary: ms) (auto split: option.splits)

lemma initClassifier_allow:
  "initClassifier rules = Some cl \<Longrightarrow>
     buildMatchers (allow_keywords rules) = Some (allowKeywordMatchers cl)"
  by (auto simp: initClassifier_def split: option.splits)

lemma buildTermPattern_blank: "trim t = [] \<Longrightarrow> buildTermPattern t = Some []"
  by (simp add: buildTermPattern_def regexSource_def isShortWord_def toLowerCase_def
      escapeRegExp_def)

text \<open>
  C10. A blank allow entry (empty, or white space only) compiles to the empty pattern,
  which matches every text: with such an entry among the allow keywords, every article
  that has no excluded domain and no exclude-keyword hit is accepted.
\<close>

theorem blank_allow_entry_accepts:
  assumes "t \<in> set (allow_keywords rules)" and "trim t = []"
    and "initClassifier rules = Some cl"
  shows "buildTermPattern t = Some [] \<and>
         (\<exists>m\<in>set (allowKeywordMatchers cl). term m = t \<and> (\<forall>text. RegExp_test (pattern m) text)) \<and>
         (\<not> isExcludedDomain hostnameOf cl (url article) \<and>
          list_all (\<lambda>m. \<not> RegExp_test (pattern m) (combinedText article))
            (excludeKeywordMatchers cl)
          \<longrightarrow> isAiRelatedArticle hostnameOf cl article)"
proof -
  have blank: "buildTermPattern t = Some []"
    using assms(2) by (rule buildTermPattern_blank)
  obtain m where m: "m \<in> set (allowKeywordMatchers cl)" "term m = t" "pattern m = []"
    using buildMatchers_member [OF initClassifier_allow [OF assms(3)] assms(1)] blank
    by auto
  have every: "\<forall>text. RegExp_test (pattern m) text"
    using m(3) by (simp add: RegExp_test_Nil)
  have "isAiRelatedArticle hostnameOf cl article"
    if "\<not> isExcludedDomain hostnameOf cl (url article)"
      and "list_all (\<lambda>m. \<not> RegExp_test (pattern m) (combinedText article))
            (excludeKeywordMatchers cl)"
    using that m(1) every by (auto simp: isAiRelatedArticle_iff list_all_iff)
  with blank m every show ?thesis by blast
qed

theorem blank_allow_entry_accepts_witness:
  "js '' '' \<in> set (allow_keywords blankRules) \<and> trim (js '' '') = [] \<and>
   initClassifier blankRules = Some blankClassifier \<and>
   \<not> isExcludedDomain noHostnames blankClassifier (url (titled ''Local football results'')) \<and>
   list_all (\<lambda>m. \<not> RegExp_test (pattern m) (combinedText (titled ''Local football results'')))
     (excludeKeywordMatchers blankClassifier) \<and>
   isAiRelatedArticle noHostnames blankClassifier (titled ''Local football results'')"
proof -
  have mem: "js '' '' \<in> set (allow_keywords blankRules)"
    by (simp add: blankRules_def)
  have blank: "trim (js '' '') = []"
    by (simp add: string_eval)
  have init: "initClassifier blankRules = Some blankClassifier"
    by (simp add: blankRules_def blankClassifier_def sportsPattern_def classifier_eval)
  have dom: "\<not> isExcludedDomain noHostnames blankClassifier (url (titled ''Local football results''))"
    by (simp add: isExcludedDomain_def extractHost_def titled_def orEmpty_def)
  have excl: "list_all (\<lambda>m. \<not> RegExp_test (pattern m) (combinedText (titled ''Local football results'')))
     (excludeKeywordMatchers blankClassifier)"
    by (simp add: blankClassifier_def combinedText_titled sportsPattern_def string_eval)
  show ?thesis
    using mem blank init dom excl
      blank_allow_entry_accepts [OF mem blank init, of noHostnames "titled ''Local football results''"]
    by simp
qed

section \<open>What a compiled term pattern matches\<close>

lemma isSyntaxChar_unat:
  "isSyntaxChar c \<longleftrightarrow> unat c \<in> {0x5E, 0x24, 0x2E, 0x2A, 0x2B, 0x3F, 0x28, 0x29, 0x5B, 0x5D, 0x7B, 0x7D, 0x7C, 0x5C}"
  by (simp add: isSyntaxChar_def js_def backslash_def word_unat_eq_iff)



lemma whitespace_not_syntax: "isWhiteSpace c \<Longrightarrow> \<not> isSyntaxChar c"
  by (auto simp: isWhiteSpace_def isSyntaxChar_unat Let_def)





lemma escapeRegExp_Nil [simp]: "escapeRegExp [] = []"
  by (simp add: escapeRegExp_def)

lemma escapeRegExp_Cons:
  "escapeRegExp (c # cs) = (if isSyntaxChar c then [backslash, c] else [c]) @ escapeRegExp cs"
  by (simp add: escapeRegExp_def)

lemma backslash_props:
  "isSyntaxChar backslash" "\<not> isWhiteSpace backslash" "backslash \<noteq> 0x2B"
  by (simp_all add: isSyntaxChar_unat isWhiteSpace_def backslash_def)

lemma dropWhile_escapeRegExp:
  "dropWhile isWhiteSpace (escapeRegExp cs) = escapeRegExp (dropWhile isWhiteSpace cs)"
  by (induction cs) (auto simp: escapeRegExp_Cons whitespace_not_syntax backslash_props)

lemma source_first_not_plus:
  "firstChar (replaceSpaceRuns (escapeRegExp s) @ rest) = Some 0x2B \<Longrightarrow> s = [] \<and> firstChar rest = Some 0x2B"
  by (cases s) (auto simp: escapeRegExp_Cons backslash_props isSyntaxChar_unat split: if_splits)

lemma quantified_not_plus:
  "firstChar s \<noteq> Some 0x2B \<Longrightarrow> quantified cl s = (Once cl, s)"
  by (cases s) auto

lemma RegExp_new_source:
  "firstChar rest \<noteq> Some 0x2B \<Longrightarrow>
   RegExp_new (replaceSpaceRuns (escapeRegExp s) @ rest) =
     map_option ((@) (compileTerm s)) (RegExp_new rest)"
proof (induction s rule: compileTerm.induct)
  case 1
  then show ?case by (simp add: option.map_ident)
next
  case (2 c cs)
  let ?tail = "replaceSpaceRuns (escapeRegExp cs) @ rest"
  have tail: "firstChar ?tail \<noteq> Some 0x2B"
    using source_first_not_plus [of cs rest] 2(3) by blast
  show ?case
  proof (cases "isWhiteSpace c")
    case True
    then have "\<not> isSyntaxChar c" by (rule whitespace_not_syntax)
    with True 2 show ?thesis
      by (simp add: escapeRegExp_Cons dropWhile_escapeRegExp backslash_props option.map_comp comp_def)
  next
    case ws: False
    show ?thesis
    proof (cases "isSyntaxChar c")
      case True
      then have "c \<noteq> 0x62" "c \<noteq> 0x73"
        by (auto simp: isSyntaxChar_unat)
      with True ws 2 tail show ?thesis
        by (simp add: escapeRegExp_Cons backslash_props quantified_not_plus option.map_comp comp_def)
    next
      case False
      then have "c \<noteq> backslash" using backslash_props(1) by auto
      with False ws 2 tail show ?thesis
        by (simp add: escapeRegExp_Cons backslash_props quantified_not_plus option.map_comp comp_def)
    qed
  qed
qed







lemma squeeze_lower_Nil [simp]: "squeezeSpace (toLowerCase []) = []"
  by (simp add: toLowerCase_def)







lemma RegExp_new_boundary: "RegExp_new [backslash, 0x62] = Some [WordBoundary]"
  by (simp add: backslash_def)

lemma buildTermPattern_compile:
  "buildTermPattern t =
     Some (if isShortWord t
           then WordBoundary # compileTerm (toLowerCase (trim t)) @ [WordBoundary]
           else compileTerm (toLowerCase (trim t)))"
proof -
  let ?e = "replaceSpaceRuns (escapeRegExp (toLowerCase (trim t)))"
  have plain: "RegExp_new ?e = Some (compileTerm (toLowerCase (trim t)))"
    using RegExp_new_source [of "[]" "toLowerCase (trim t)"] by simp
  have "RegExp_new (?e @ [backslash, 0x62]) = Some (compileTerm (toLowerCase (trim t)) @ [WordBoundary])"
    using RegExp_new_source [of "[backslash, 0x62]" "toLowerCase (trim t)"]
    by (simp add: RegExp_new_boundary backslash_def)
  then have "RegExp_new ([backslash, 0x62] @ ?e @ [backslash, 0x62]) =
      Some (WordBoundary # compileTerm (toLowerCase (trim t)) @ [WordBoundary])"
    by (simp add: backslash_def)
  with plain show ?thesis
    by (simp add: buildTermPattern_def regexSource_def Let_def)
qed













lemma buildMatchers_total: "\<exists>ms. buildMatchers ts = Some ms"
  by (induction ts) (auto simp: buildTermPattern_compile)

lemma initClassifier_total: "\<exists>cl. initClassifier rules = Some cl"
  using buildMatchers_total [of "allow_keywords rules"] buildMatchers_total [of "exclude_keywords rules"]
  by (auto simp: initClassifier_def)





section \<open>Excluded domains\<close>

lemma domainClassifier_init:
  "initClassifier \<lparr>allow_keywords = [js ''ai''], exclude_domains = [js d], exclude_keywords = []\<rparr>
     = Some (domainClassifier d)"
  by (simp add: initClassifier_def domainClassifier_def buildTermPattern_compile aiPattern_def string_eval)

text \<open>
  C3 (as amended). An article whose URL has a non-empty host name that equals an entry
  of \<open>exclude_domains\<close>, or ends with a dot followed by the entry, is rejected whatever
  its text matches. Both sides are lower-cased and the entry is trimmed of white space;
  a trailing dot is not removed on either side.
\<close>

theorem excluded_domain_rejected:
  assumes "url article = Some u" and "u \<noteq> []"
    and "hostnameOf u = Some h" and "h \<noteq> []"
    and "d \<in> set (exclude_domains (filterRules cl))"
    and "toLowerCase h = trim (toLowerCase d) \<or>
         endsWith (toLowerCase h) (0x2E # trim (toLowerCase d))"
  shows "\<not> isAiRelatedArticle hostnameOf cl article"
proof -
  have host: "extractHost hostnameOf (url article) = toLowerCase h"
    using assms(1-3) by (simp add: extractHost_def orEmpty_def)
  have "toLowerCase h \<noteq> []" using assms(4) by (simp add: toLowerCase_def)
  with host assms(5,6) have "isExcludedDomain hostnameOf cl (url article)"
    by (auto simp: isExcludedDomain_def Let_def list_ex_iff)
  then show ?thesis by (simp add: isAiRelatedArticle_iff)
qed

theorem excluded_domain_rejected_witness:
  "url (aiArticleAt ''https://news.example.com/ai-chips'') = Some (js ''https://news.example.com/ai-chips'') \<and>
   js ''https://news.example.com/ai-chips'' \<noteq> [] \<and>
   exampleHostnames (js ''https://news.example.com/ai-chips'') = Some (js ''news.example.com'') \<and>
   js ''news.example.com'' \<noteq> [] \<and>
   js '' Example.COM '' \<in> set (exclude_domains (filterRules (domainClassifier '' Example.COM ''))) \<and>
   endsWith (toLowerCase (js ''news.example.com'')) (0x2E # trim (toLowerCase (js '' Example.COM ''))) \<and>
   RegExp_test aiPattern (combinedText (aiArticleAt ''https://news.example.com/ai-chips'')) \<and>
   \<not> isAiRelatedArticle exampleHostnames (domainClassifier '' Example.COM '')
       (aiArticleAt ''https://news.example.com/ai-chips'')"
proof -
  let ?a = "aiArticleAt ''https://news.example.com/ai-chips''"
  have 1: "url ?a = Some (js ''https://news.example.com/ai-chips'')"
    by (simp add: aiArticleAt_def)
  have 2: "js ''https://news.example.com/ai-chips'' \<noteq> []" by (simp add: js_def)
  have 3: "exampleHostnames (js ''https://news.example.com/ai-chips'') = Some (js ''news.example.com'')"
    by (simp add: exampleHostnames_def)
  have 4: "js ''news.example.com'' \<noteq> []" by (simp add: js_def)
  have 5: "js '' Example.COM '' \<in> set (exclude_domains (filterRules (domainClassifier '' Example.COM '')))"
    by (simp add: domainClassifier_def)
  have 6: "endsWith (toLowerCase (js ''news.example.com'')) (0x2E # trim (toLowerCase (js '' Example.COM '')))"
    by (simp add: string_eval)
  have 7: "RegExp_test aiPattern (combinedText ?a)"
    by (simp add: aiArticleAt_def titled_def combinedText_def sourceName_def aiPattern_def string_eval)
  have "\<not> isAiRelatedArticle exampleHostnames (domainClassifier '' Example.COM '') ?a"
    using excluded_domain_rejected [where hostnameOf = exampleHostnames, OF 1 2 3 4 5] 6 by blast
  with 1 2 3 4 5 6 7 show ?thesis by blast
qed

text \<open>
  With a trailing dot on the host the article is not excluded: \<open>example.com.\<close> equals
  \<open>example.com\<close> once the dot is normalised away, as the claim has it, yet the classifier
  accepts the article.
\<close>

theorem trailing_dot_counterexample:
  "url (aiArticleAt ''https://example.com./ai-chips'') = Some (js ''https://example.com./ai-chips'') \<and>
   exampleHostnames (js ''https://example.com./ai-chips'') = Some (js ''example.com.'') \<and>
   specDomainMatch (js ''example.com.'') (js ''example.com'') \<and>
   isAiRelatedArticle exampleHostnames (domainClassifier ''example.com'')
     (aiArticleAt ''https://example.com./ai-chips'')"
  by (simp add: aiArticleAt_def titled_def exampleHostnames_def domainClassifier_def
      aiPattern_def specDomainMatch_def stripTrailingDot_def classifier_eval)

section \<open>The summarizer's fallback\<close>

lemma buildFallbackSummary_length: "length (buildFallbackSummary article) \<le> 200"
  by (simp add: buildFallbackSummary_def Let_def js_def)

lemma fallbackBase_cases:
  "fallbackBase article =
     (if truthy (description article) then orEmpty (description article)
      else if truthy (title article) then orEmpty (title article)
      else unavailableMessage)"
  by (auto simp: fallbackBase_def orString_def truthy_def orEmpty_def split: option.splits)

text \<open>
  C5 (as amended). \<open>summarizeArticle\<close> always returns. When the model call throws, when
  the reply is not JSON, and when the parsed reply is \<open>null\<close> or has neither member
  usable, the result is the original title and the fallback summary. Of a parsed reply
  each member defaults on its own: a member that is missing or empty is replaced by its
  default, and a member that is present is kept as the model gave it, the summary with no
  bound on its length. The fallback summary is the description, else the title, else the
  fixed message, never longer than 200 code units: unchanged up to 200, else its first
  197 code units followed by three dots.
\<close>

theorem summarize_fallback:
  "(reply = GenerateFailed \<or>
    reply = GenerateText raw \<and>
      (parse (cleanReply raw) = None \<or> parse (cleanReply raw) = Some JsonNull \<or>
       parse (cleanReply raw) = Some (JsonMembers t s) \<and> \<not> truthy t \<and> \<not> truthy s)
    \<longrightarrow> summarizeArticle parse reply article =
          \<lparr>title_ja = title article, summary_ja = buildFallbackSummary article\<rparr>) \<and>
   (reply = GenerateText raw \<and> parse (cleanReply raw) = Some (JsonMembers t s) \<longrightarrow>
      (\<not> truthy t \<longrightarrow> title_ja (summarizeArticle parse reply article) = title article) \<and>
      (truthy t \<longrightarrow> title_ja (summarizeArticle parse reply article) = t) \<and>
      (\<not> truthy s \<longrightarrow>
         summary_ja (summarizeArticle parse reply article) = buildFallbackSummary article) \<and>
      (truthy s \<longrightarrow> Some (summary_ja (summarizeArticle parse reply article)) = s)) \<and>
   length (buildFallbackSummary article) \<le> 200 \<and>
   fallbackBase article =
     (if truthy (description article) then orEmpty (description article)
      else if truthy (title article) then orEmpty (title article)
      else unavailableMessage) \<and>
   (length (fallbackBase article) \<le> 200 \<longrightarrow>
      buildFallbackSummary article = fallbackBase article) \<and>
   (200 < length (fallbackBase article) \<longrightarrow>
      buildFallbackSummary article = take 197 (fallbackBase article) @ js ''...'')"
proof (intro conjI impI)
  assume "reply = GenerateFailed \<or>
    reply = GenerateText raw \<and>
      (parse (cleanReply raw) = None \<or> parse (cleanReply raw) = Some JsonNull \<or>
       parse (cleanReply raw) = Some (JsonMembers t s) \<and> \<not> truthy t \<and> \<not> truthy s)"
  then show "summarizeArticle parse reply article =
          \<lparr>title_ja = title article, summary_ja = buildFallbackSummary article\<rparr>"
    by (auto simp: summarizeArticle_def fallbackResult_def truthy_def orString_def
        split: option.splits)
next
  assume a: "reply = GenerateText raw \<and> parse (cleanReply raw) = Some (JsonMembers t s)"
  show "title_ja (summarizeArticle parse reply article) = title article" if "\<not> truthy t"
    using a that by (simp add: summarizeArticle_def)
  show "title_ja (summarizeArticle parse reply article) = t" if "truthy t"
    using a that by (simp add: summarizeArticle_def)
  show "summary_ja (summarizeArticle parse reply article) = buildFallbackSummary article"
    if "\<not> truthy s"
    using a that by (auto simp: summarizeArticle_def orString_def truthy_def split: option.splits)
  show "Some (summary_ja (summarizeArticle parse reply article)) = s" if "truthy s"
    using a that by (auto simp: summarizeArticle_def orString_def truthy_def split: option.splits)
next
  show "length (buildFallbackSummary article) \<le> 200"
    by (rule buildFallbackSummary_length)
next
  show "fallbackBase article =
     (if truthy (description article) then orEmpty (description article)
      else if truthy (title article) then orEmpty (title article)
      else unavailableMessage)"
    by (rule fallbackBase_cases)
next
  assume "length (fallbackBase article) \<le> 200"
  then show "buildFallbackSummary article = fallbackBase article"
    by (simp add: buildFallbackSummary_def)
next
  assume "200 < length (fallbackBase article)"
  then show "buildFallbackSummary article = take 197 (fallbackBase article) @ js ''...''"
    by (simp add: buildFallbackSummary_def)
qed

lemmas summarizer_eval =
  summarizeArticle_def fallbackResult_def buildFallbackSummary_def fallbackBase_def
  orString_def truthy_def cleanReply_def stripFenceOpen_def stripFenceClose_def
  backticks_def unavailableMessage_def exampleJsonParse_def titleOnlyJson_def
  fencedReply_def longArticle_def titled_def

lemma cleanReply_plain:
  assumes "\<not> isWhiteSpace a" "\<not> isWhiteSpace b" "a \<noteq> 0x60" "b \<noteq> 0x60"
  shows "cleanReply (a # m @ [b]) = a # m @ [b]"
proof -
  have "trim (a # m @ [b]) = a # m @ [b]"
    using assms(1,2) by (simp add: trim_def)
  moreover have "stripFenceOpen (a # m @ [b]) = a # m @ [b]"
    using assms(3) by (simp add: stripFenceOpen_def backticks_def)
  moreover have "stripFenceClose (a # m @ [b]) = a # m @ [b]"
    using assms(4) by (simp add: stripFenceClose_def endsWith_def backticks_def)
  ultimately show ?thesis by (simp add: cleanReply_def)
qed

lemma summaryOnlyJson_clean: "cleanReply summaryOnlyJson = summaryOnlyJson"
proof -
  have \<open>summaryOnlyJson = 0x7B # (js ''"summary_ja": "'' @ longSummary @ [0x22]) @ [0x7D]\<close>
    by (simp add: summaryOnlyJson_def js_def)
  moreover have \<open>cleanReply (0x7B # (js ''"summary_ja": "'' @ longSummary @ [0x22]) @ [0x7D]) =
      0x7B # (js ''"summary_ja": "'' @ longSummary @ [0x22]) @ [0x7D]\<close>
    by (rule cleanReply_plain) (simp_all add: isWhiteSpace_def)
  ultimately show ?thesis by simp
qed

theorem summarize_fallback_witness:
  "summarizeArticle exampleJsonParse GenerateFailed longArticle =
     \<lparr>title_ja = Some (js ''AI chips''), summary_ja = replicate 197 0x61 @ js ''...''\<rparr> \<and>
   200 < length (fallbackBase longArticle) \<and>
   length (buildFallbackSummary longArticle) = 200 \<and>
   exampleJsonParse (cleanReply (js ''Sorry, no summary.'')) = None \<and>
   summarizeArticle exampleJsonParse (GenerateText (js ''Sorry, no summary.'')) (titled ''AI chips'') =
     \<lparr>title_ja = Some (js ''AI chips''), summary_ja = js ''AI chips''\<rparr> \<and>
   exampleJsonParse (cleanReply (js ''{}'')) = Some (JsonMembers None None) \<and>
   summarizeArticle exampleJsonParse (GenerateText (js ''{}'')) (titled ''AI chips'') =
     \<lparr>title_ja = Some (js ''AI chips''), summary_ja = js ''AI chips''\<rparr> \<and>
   cleanReply fencedReply = titleOnlyJson \<and>
   exampleJsonParse titleOnlyJson = Some (JsonMembers (Some (js ''T'')) None) \<and>
   summarizeArticle exampleJsonParse (GenerateText fencedReply) (titled ''AI chips'') =
     \<lparr>title_ja = Some (js ''T''), summary_ja = js ''AI chips''\<rparr> \<and>
   summaryOnlyParse (cleanReply summaryOnlyJson) = Some (JsonMembers None (Some longSummary)) \<and>
   summarizeArticle summaryOnlyParse (GenerateText summaryOnlyJson) (titled ''AI chips'') =
     \<lparr>title_ja = Some (js ''AI chips''), summary_ja = longSummary\<rparr>"
proof -
  let ?a = "titled ''AI chips''"
  have base: "fallbackBase longArticle = replicate 250 0x61"
    by (simp add: summarizer_eval)
  have short: "fallbackBase ?a = js ''AI chips''"
    by (simp add: summarizer_eval js_def)
  have none: "exampleJsonParse (cleanReply (js ''Sorry, no summary.'')) = None"
    by (simp add: summarizer_eval string_eval)
  have empty: "exampleJsonParse (cleanReply (js ''{}'')) = Some (JsonMembers None None)"
    by (simp add: summarizer_eval string_eval)
  have clean: "cleanReply fencedReply = titleOnlyJson"
    by (simp add: summarizer_eval string_eval)
  have parsed: "exampleJsonParse titleOnlyJson = Some (JsonMembers (Some (js ''T'')) None)"
    by (simp add: exampleJsonParse_def)
  note sclean = summaryOnlyJson_clean
  have sparsed: "summaryOnlyParse (cleanReply summaryOnlyJson) = Some (JsonMembers None (Some longSummary))"
    by (simp add: sclean summaryOnlyParse_def)
  have t: "title longArticle = Some (js ''AI chips'')" "title ?a = Some (js ''AI chips'')"
    by (simp_all add: longArticle_def titled_def)
  have tr: "\<not> truthy None" "truthy (Some (js ''T''))" "truthy (Some longSummary)"
    by (simp_all add: truthy_def js_def longSummary_def)
  note failed = summarize_fallback [where reply = GenerateFailed and raw = "[]"
      and parse = exampleJsonParse and article = longArticle and t = None and s = None]
  note nojson = summarize_fallback [where reply = "GenerateText (js ''Sorry, no summary.'')"
      and raw = "js ''Sorry, no summary.''" and parse = exampleJsonParse
      and article = "titled ''AI chips''" and t = None and s = None]
  note neither = summarize_fallback [where reply = "GenerateText (js ''{}'')" and raw = "js ''{}''"
      and parse = exampleJsonParse and article = "titled ''AI chips''" and t = None and s = None]
  note titleOnly = summarize_fallback [where reply = "GenerateText fencedReply" and raw = fencedReply
      and parse = exampleJsonParse and article = "titled ''AI chips''"
      and t = "Some (js ''T'')" and s = None]
  note summaryOnly = summarize_fallback [where reply = "GenerateText summaryOnlyJson"
      and raw = summaryOnlyJson and parse = summaryOnlyParse and article = "titled ''AI chips''"
      and t = None and s = "Some longSummary"]
  have fbl: "buildFallbackSummary longArticle = replicate 197 0x61 @ js ''...''"
    by (simp add: buildFallbackSummary_def base)
  have fb: "buildFallbackSummary ?a = js ''AI chips''"
    by (simp add: buildFallbackSummary_def short js_def)
  have 1: "summarizeArticle exampleJsonParse GenerateFailed longArticle =
     \<lparr>title_ja = Some (js ''AI chips''), summary_ja = replicate 197 0x61 @ js ''...''\<rparr>"
    using failed [THEN conjunct1] t(1) fbl by simp
  have 2: "length (buildFallbackSummary longArticle) = 200"
    by (simp add: fbl js_def)
  have 3: "summarizeArticle exampleJsonParse (GenerateText (js ''Sorry, no summary.'')) ?a =
     \<lparr>title_ja = Some (js ''AI chips''), summary_ja = js ''AI chips''\<rparr>"
    using nojson [THEN conjunct1] none fb t(2) by simp
  have 4: "summarizeArticle exampleJsonParse (GenerateText (js ''{}'')) ?a =
     \<lparr>title_ja = Some (js ''AI chips''), summary_ja = js ''AI chips''\<rparr>"
    using neither [THEN conjunct1] empty tr(1) fb t(2) by simp
  have 5: "title_ja (summarizeArticle exampleJsonParse (GenerateText fencedReply) ?a) = Some (js ''T'')"
    "summary_ja (summarizeArticle exampleJsonParse (GenerateText fencedReply) ?a) = js ''AI chips''"
    using titleOnly [THEN conjunct2, THEN conjunct1] clean parsed tr(1,2) fb by simp_all
  have 6: "title_ja (summarizeArticle summaryOnlyParse (GenerateText summaryOnlyJson) ?a) =
      Some (js ''AI chips'')"
    "summary_ja (summarizeArticle summaryOnlyParse (GenerateText summaryOnlyJson) ?a) = longSummary"
    using summaryOnly [THEN conjunct2, THEN conjunct1] sparsed tr(1,3) t(2) by simp_all
  have 7: "summarizeArticle exampleJsonParse (GenerateText fencedReply) ?a =
     \<lparr>title_ja = Some (js ''T''), summary_ja = js ''AI chips''\<rparr>"
    using 5 by (cases "summarizeArticle exampleJsonParse (GenerateText fencedReply) ?a") simp
  have 8: "summarizeArticle summaryOnlyParse (GenerateText summaryOnlyJson) ?a =
     \<lparr>title_ja = Some (js ''AI chips''), summary_ja = longSummary\<rparr>"
    using 6 by (cases "summarizeArticle summaryOnlyParse (GenerateText summaryOnlyJson) ?a") simp
  from 1 2 3 4 7 8 base none empty clean parsed sparsed show ?thesis by - (intro conjI, simp_all)
qed

text \<open>
  The claim as written fails for a reply that lacks one member only. A reply with the
  title alone keeps the model's title \<open>T\<close>, which is not the original title; a reply
  with the summary alone keeps the model's summary of 500 code units, which is not the
  fallback and exceeds 200.
\<close>

theorem partial_reply_counterexample:
  "cleanReply fencedReply = titleOnlyJson \<and>
   exampleJsonParse titleOnlyJson = Some (JsonMembers (Some (js ''T'')) None) \<and>
   title (titled ''AI chips'') = Some (js ''AI chips'') \<and>
   title_ja (summarizeArticle exampleJsonParse (GenerateText fencedReply) (titled ''AI chips'')) =
     Some (js ''T'') \<and>
   summaryOnlyParse (cleanReply summaryOnlyJson) = Some (JsonMembers None (Some longSummary)) \<and>
   buildFallbackSummary (titled ''AI chips'') = js ''AI chips'' \<and>
   summary_ja (summarizeArticle summaryOnlyParse (GenerateText summaryOnlyJson) (titled ''AI chips'')) =
     longSummary \<and>
   length longSummary = 500"
proof -
  note sclean = summaryOnlyJson_clean
  have clean: "cleanReply fencedReply = titleOnlyJson"
    by (simp add: summarizer_eval string_eval)
  have fb: "buildFallbackSummary (titled ''AI chips'') = js ''AI chips''"
    by (simp add: summarizer_eval js_def)
  have long: "longSummary \<noteq> []" "length longSummary = 500"
    by (simp_all add: longSummary_def)
  show ?thesis
    using sclean clean fb long
    by (simp add: summarizeArticle_def summaryOnlyParse_def exampleJsonParse_def truthy_def
        orString_def titled_def js_def)
qed

section \<open>What a run writes\<close>

text \<open>
  C6. A run that fetches no article, or whose articles are all dropped by the
  \<open>[Removed]\<close> filter, the relevance filter and the truncation, returns before either
  \<open>writeFileSync\<close>: the latest snapshot and the archives are as they were.
\<close>

theorem empty_run_writes_nothing:
  assumes "fetchNews (newsApi w) = [] \<or> topArticles w cl = []"
  shows "snd (processNews w cl store) = store \<and>
         (fst (processNews w cl store) = NoArticles \<or>
          fst (processNews w cl store) = NoRelevantArticles)"
  using assms by (auto simp: processNews_def)













lemmas pipeline_eval =
  topArticles_def fetchNews_def sortBy_def comesAfter_def compareByDate_def timeOf_def
  exampleWorld_def exampleDates_def newsItem_def wire_def titled_def noHostnames_def
  sportsClassifier_def aiPattern_def sportsPattern_def classifier_eval

lemma irrelevantNews_top: "topArticles (exampleWorld (FetchOk irrelevantNews)) sportsClassifier = []"
  by (simp add: irrelevantNews_def pipeline_eval)




theorem empty_run_writes_nothing_witness:
  "fetchNews (newsApi (exampleWorld FetchFailed)) = [] \<and>
   snd (processNews (exampleWorld FetchFailed) sportsClassifier priorStore) = priorStore \<and>
   fetchNews (newsApi (exampleWorld (FetchOk irrelevantNews))) \<noteq> [] \<and>
   topArticles (exampleWorld (FetchOk irrelevantNews)) sportsClassifier = [] \<and>
   snd (processNews (exampleWorld (FetchOk irrelevantNews)) sportsClassifier priorStore) = priorStore \<and>
   fst (processNews (exampleWorld (FetchOk irrelevantNews)) sportsClassifier priorStore) =
     NoRelevantArticles"
proof -
  have none: "fetchNews (newsApi (exampleWorld FetchFailed)) = []"
    by (simp add: fetchNews_def exampleWorld_def)
  have some: "fetchNews (newsApi (exampleWorld (FetchOk irrelevantNews))) \<noteq> []"
    by (simp add: fetchNews_def exampleWorld_def irrelevantNews_def)
  have 1: "snd (processNews (exampleWorld FetchFailed) sportsClassifier priorStore) = priorStore"
    using empty_run_writes_nothing [of "exampleWorld FetchFailed" sportsClassifier priorStore] none
    by simp
  have 2: "snd (processNews (exampleWorld (FetchOk irrelevantNews)) sportsClassifier priorStore) = priorStore"
    using empty_run_writes_nothing [of "exampleWorld (FetchOk irrelevantNews)" sportsClassifier priorStore]
      irrelevantNews_top by simp
  have 3: "fst (processNews (exampleWorld (FetchOk irrelevantNews)) sportsClassifier priorStore) =
     NoRelevantArticles"
    using some irrelevantNews_top by (simp add: processNews_def)
  from none some 1 2 3 irrelevantNews_top show ?thesis by simp
qed



section \<open>Activation and the data request\<close>

lemma fold_delete_others:
  "fold (\<lambda>n st. if n \<noteq> c then caches_delete n st else st) ks st =
     filter (\<lambda>(n, x). n = c \<or> n \<notin> set ks) st"
proof (induction ks arbitrary: st)
  case Nil
  then show ?case by simp
next
  case (Cons k ks)
  have "filter (\<lambda>(n, x). n = c \<or> n \<notin> set ks) (caches_delete k st) =
      filter (\<lambda>(n, x). n = c \<or> n \<notin> set (k # ks)) st" if "k \<noteq> c"
    using that by (induction st) (auto simp: caches_delete_def AList.delete_eq)
  moreover have "filter (\<lambda>(n, x). n = c \<or> n \<notin> set ks) st =
      filter (\<lambda>(n, x). n = c \<or> n \<notin> set (k # ks)) st" if "k = c"
    using that by (induction st) auto
  ultimately show ?case using Cons.IH by auto
qed

lemma activate_filter: "activate cs = filter (\<lambda>(n, x). n = CACHE_NAME) cs"
proof -
  have "filter (\<lambda>(n, x). n = CACHE_NAME \<or> n \<notin> set (map fst cs)) cs =
      filter (\<lambda>(n, x). n = CACHE_NAME) cs"
    by (rule filter_cong) (auto simp: rev_image_eqI)
  then show ?thesis
    by (simp add: activate_def caches_keys_def fold_delete_others)
qed

lemma keys_map_entry: "map fst (AList.map_entry k f xs) = map fst xs"
  by (induction xs) auto

lemma caches_keys_put: "caches_keys (cache_put n req r cs) = caches_keys cs"
  by (simp add: caches_keys_def cache_put_def keys_map_entry)

lemma caches_keys_addAll: "caches_keys (addAll net n reqs cs) = caches_keys cs"
  by (induction reqs arbitrary: cs) (auto simp: caches_keys_put split: option.splits)

lemma caches_keys_open:
  "caches_keys (caches_open n cs) = (if n \<in> set (caches_keys cs) then caches_keys cs else caches_keys cs @ [n])"
  by (simp add: caches_open_def caches_keys_def)

lemma caches_keys_install:
  "CACHE_NAME \<in> set (caches_keys (snd (install net cs)))"
  "distinct (caches_keys cs) \<Longrightarrow> distinct (caches_keys (snd (install net cs)))"
  by (auto simp: install_def Let_def caches_keys_addAll caches_keys_open)

lemma filter_key_single:
  "distinct (map fst cs) \<Longrightarrow> k \<in> set (map fst cs) \<Longrightarrow>
     \<exists>c. filter (\<lambda>(n, x). n = k) cs = [(k, c)] \<and> map_of cs k = Some c"
proof (induction cs)
  case Nil
  then show ?case by simp
next
  case (Cons p cs)
  obtain n x where p: "p = (n, x)" by (cases p)
  show ?case
  proof (cases "n = k")
    case True
    with Cons.prems p have "k \<notin> fst ` set cs" by auto
    then have "filter (\<lambda>(n, x). n = k) cs = []"
      by (auto simp: filter_empty_conv rev_image_eqI)
    with True p show ?thesis by simp
  next
    case False
    with Cons p show ?thesis by auto
  qed
qed

lemma map_of_filter_key: "map_of (filter (\<lambda>(n, x). n = k) cs) k = map_of cs k"
  by (induction cs) auto

text \<open>
  C8. \<open>activate\<close> deletes every cache whose name is not \<open>CACHE_NAME\<close> and leaves the
  current cache as it is. When the current cache exists at activation it is the one cache
  left; it does exist after \<open>install\<close>, which opens it, so installation followed by
  activation ends with exactly one cache, the current one.
\<close>

theorem activate_keeps_current_only:
  "activate cs = filter (\<lambda>(n, c). n = CACHE_NAME) cs \<and>
   (\<forall>n. n \<noteq> CACHE_NAME \<longrightarrow> n \<notin> set (caches_keys (activate cs))) \<and>
   map_of (activate cs) CACHE_NAME = map_of cs CACHE_NAME \<and>
   (CACHE_NAME \<in> set (caches_keys cs) \<longrightarrow> set (caches_keys (activate cs)) = {CACHE_NAME}) \<and>
   (distinct (caches_keys cs) \<and> CACHE_NAME \<in> set (caches_keys cs) \<longrightarrow>
      (\<exists>c. activate cs = [(CACHE_NAME, c)] \<and> map_of cs CACHE_NAME = Some c)) \<and>
   (distinct (caches_keys cs) \<longrightarrow>
      (\<exists>c. activate (snd (install net cs)) = [(CACHE_NAME, c)]))"
proof (intro conjI impI allI)
  show "activate cs = filter (\<lambda>(n, c). n = CACHE_NAME) cs"
    by (rule activate_filter)
  show "n \<notin> set (caches_keys (activate cs))" if "n \<noteq> CACHE_NAME" for n
    using that by (auto simp: activate_filter caches_keys_def)
  show "map_of (activate cs) CACHE_NAME = map_of cs CACHE_NAME"
    by (simp add: activate_filter map_of_filter_key)
  show "set (caches_keys (activate cs)) = {CACHE_NAME}" if "CACHE_NAME \<in> set (caches_keys cs)"
    using that by (auto simp: activate_filter caches_keys_def rev_image_eqI)
  show "\<exists>c. activate cs = [(CACHE_NAME, c)] \<and> map_of cs CACHE_NAME = Some c"
    if "distinct (caches_keys cs) \<and> CACHE_NAME \<in> set (caches_keys cs)"
    using that filter_key_single [of cs CACHE_NAME]
    by (simp add: activate_filter caches_keys_def)
  show "\<exists>c. activate (snd (install net cs)) = [(CACHE_NAME, c)]" if "distinct (caches_keys cs)"
    using caches_keys_install [where net = net and cs = cs] that
      filter_key_single [of "snd (install net cs)" CACHE_NAME]
    by (auto simp: activate_filter caches_keys_def)
qed

lemma cache_lookup_put:
  "cache_lookup CACHE_NAME req (cache_put CACHE_NAME req r (caches_open CACHE_NAME cs)) = Some r"
proof -
  have "map_of (caches_open CACHE_NAME cs) CACHE_NAME \<noteq> None"
    by (auto simp: caches_open_def caches_keys_def map_of_eq_None_iff)
  then show ?thesis
    by (auto simp: cache_lookup_def cache_put_def AList.map_of_map_entry AList.update_conv'
        split: option.splits)
qed

text \<open>
  C9. For a request of the data snapshot the network is asked first. Its response, when
  there is one, is what the client receives, and it is put into the current cache exactly
  when its status is 200 and its type is basic. When the network fails the client
  receives what \<open>caches.match\<close> finds for the request, and nothing when it finds nothing;
  the caches stay as they are.
\<close>

theorem data_request_network_first:
  assumes "isDataRequest req"
  shows "(net req = Some r \<longrightarrow>
           fst (onFetch net cs req) = Some r \<and>
           (status r = 200 \<and> type' r = Basic \<longrightarrow>
              snd (onFetch net cs req) = cache_put CACHE_NAME req r (caches_open CACHE_NAME cs) \<and>
              cache_lookup CACHE_NAME req (snd (onFetch net cs req)) = Some r) \<and>
           (\<not> (status r = 200 \<and> type' r = Basic) \<longrightarrow> snd (onFetch net cs req) = cs)) \<and>
         (net req = None \<longrightarrow>
           fst (onFetch net cs req) = caches_match req cs \<and> snd (onFetch net cs req) = cs) \<and>
         (net req = None \<and> caches_match req cs = None \<longrightarrow> fst (onFetch net cs req) = None)"
  using assms by (auto simp: onFetch_def cache_lookup_put)

lemmas worker_eval =
  CACHE_NAME_def ASSETS_def caches_keys_def caches_open_def caches_delete_def cache_put_def
  cache_lookup_def addable_def install_def isDataRequest_def onFetch_def
  okResponse_def unavailableResponse_def dataUrl_def oldStorage_def currentStorage_def
  staleStorage_def onlineNetwork_def failingServer_def offlineNetwork_def js_def

theorem activate_keeps_current_only_witness:
  "distinct (caches_keys currentStorage) \<and> CACHE_NAME \<in> set (caches_keys currentStorage) \<and>
   js ''ai-news-v1'' \<in> set (caches_keys currentStorage) \<and>
   js ''ai-news-v1'' \<noteq> CACHE_NAME \<and>
   js ''ai-news-v1'' \<notin> set (caches_keys (activate currentStorage)) \<and>
   activate currentStorage = [(CACHE_NAME, [(js ''./'', okResponse ''shell'')])] \<and>
   distinct (caches_keys oldStorage) \<and>
   fst (install onlineNetwork oldStorage) \<and>
   (\<exists>c. activate (snd (install onlineNetwork oldStorage)) = [(CACHE_NAME, c)])"
proof -
  have d: "distinct (caches_keys currentStorage)" "CACHE_NAME \<in> set (caches_keys currentStorage)"
    "js ''ai-news-v1'' \<in> set (caches_keys currentStorage)" "js ''ai-news-v1'' \<noteq> CACHE_NAME"
    "distinct (caches_keys oldStorage)"
    by (simp_all add: worker_eval)
  have m: "map_of currentStorage CACHE_NAME = Some [(js ''./'', okResponse ''shell'')]"
    by (simp add: worker_eval)
  have i: "fst (install onlineNetwork oldStorage)"
    by (simp add: worker_eval)
  note a = activate_keeps_current_only [of currentStorage onlineNetwork]
  note b = activate_keeps_current_only [of oldStorage onlineNetwork]
  from a d have 1: "js ''ai-news-v1'' \<notin> set (caches_keys (activate currentStorage))"
    by blast
  from a d obtain c where "activate currentStorage = [(CACHE_NAME, c)]"
    "map_of currentStorage CACHE_NAME = Some c" by blast
  with m have 2: "activate currentStorage = [(CACHE_NAME, [(js ''./'', okResponse ''shell'')])]"
    by simp
  from b d have 3: "\<exists>c. activate (snd (install onlineNetwork oldStorage)) = [(CACHE_NAME, c)]"
    by blast
  from d i 1 2 3 show ?thesis by - (intro conjI)
qed

theorem data_request_network_first_witness:
  "isDataRequest dataUrl \<and>
   onlineNetwork dataUrl = Some (okResponse ''fresh'') \<and>
   fst (onFetch onlineNetwork staleStorage dataUrl) = Some (okResponse ''fresh'') \<and>
   cache_lookup CACHE_NAME dataUrl (snd (onFetch onlineNetwork staleStorage dataUrl)) =
     Some (okResponse ''fresh'') \<and>
   failingServer dataUrl = Some unavailableResponse \<and>
   fst (onFetch failingServer staleStorage dataUrl) = Some unavailableResponse \<and>
   snd (onFetch failingServer staleStorage dataUrl) = staleStorage \<and>
   offlineNetwork dataUrl = None \<and>
   caches_match dataUrl staleStorage = Some (okResponse ''stale'') \<and>
   fst (onFetch offlineNetwork staleStorage dataUrl) = Some (okResponse ''stale'') \<and>
   caches_match dataUrl currentStorage = None \<and>
   fst (onFetch offlineNetwork currentStorage dataUrl) = None"
proof -
  have d: "isDataRequest dataUrl"
    by (simp add: isDataRequest_def dataUrl_def js_def)
  have n: "onlineNetwork dataUrl = Some (okResponse ''fresh'')"
    "failingServer dataUrl = Some unavailableResponse" "offlineNetwork dataUrl = None"
    by (simp_all add: onlineNetwork_def failingServer_def offlineNetwork_def)
  have r: "status (okResponse ''fresh'') = 200 \<and> type' (okResponse ''fresh'') = Basic"
    "\<not> (status unavailableResponse = 200 \<and> type' unavailableResponse = Basic)"
    by (simp_all add: okResponse_def unavailableResponse_def)
  have c: "caches_match dataUrl staleStorage = Some (okResponse ''stale'')"
    "caches_match dataUrl currentStorage = None"
    by (simp_all add: worker_eval)
  note online = data_request_network_first [OF d, of onlineNetwork "okResponse ''fresh''" staleStorage]
  note failing = data_request_network_first [OF d, of failingServer unavailableResponse staleStorage]
  note stale = data_request_network_first [OF d, of offlineNetwork "okResponse ''fresh''" staleStorage]
  note miss = data_request_network_first [OF d, of offlineNetwork "okResponse ''fresh''" currentStorage]
  from online n r have 1: "fst (onFetch onlineNetwork staleStorage dataUrl) = Some (okResponse ''fresh'')"
    "cache_lookup CACHE_NAME dataUrl (snd (onFetch onlineNetwork staleStorage dataUrl)) =
     Some (okResponse ''fresh'')" by blast+
  from failing n r have 2: "fst (onFetch failingServer staleStorage dataUrl) = Some unavailableResponse"
    "snd (onFetch failingServer staleStorage dataUrl) = staleStorage" by blast+
  from stale n c have 3: "fst (onFetch offlineNetwork staleStorage dataUrl) = Some (okResponse ''stale'')"
    by simp
  from miss n c have 4: "fst (onFetch offlineNetwork currentStorage dataUrl) = None"
    by simp
  from d n 1 2 3 4 c show ?thesis by - (intro conjI)
qed

end
